theory Spec2Isabelle
  imports Main "HOL-Library.Signed_Division"
begin

section \<open>Errors and their classification\<close>

text \<open>
  Go's \<open>error\<close> interface values that the mailer's own sources construct. A nil error is
  \<open>None :: error option\<close>.
  \<^item> \<open>errorString\<close>: a sentinel made by \<open>errors.New\<close>;
  \<^item> \<open>ValidationError Field Message\<close> (the \<open>Value\<close> field is nil wherever these sources
    build one);
  \<^item> \<open>ProviderError Provider Code Message StatusCode IsRetryable IsTemporary Cause\<close>;
  \<^item> \<open>RateLimitError Message RetryAfterDuration Limit Window\<close>;
  \<^item> \<open>TemplateError Template Operation Message Cause\<close>;
  \<^item> \<open>BatchError Message Errors Total Failed\<close>, each item of \<open>Errors\<close> a \<open>BatchItemError\<close>
    \<open>(Index, Error)\<close>;
  \<^item> \<open>wrapError prefix err\<close>: the value of \<open>fmt.Errorf(prefix + "%w", err)\<close>, whose
    \<open>Unwrap\<close> gives \<open>err\<close>.
\<close>

datatype error =
    errorString string
  | ValidationError string string
  | ProviderError string string string int bool bool "error option"
  | RateLimitError string int int int
  | TemplateError string string string "error option"
  | BatchError string "(int \<times> error) list" int int
  | wrapError string error

definition ErrCircuitBreakerOpen :: error where
  "ErrCircuitBreakerOpen = errorString ''circuit breaker open''"

definition ErrClientClosed :: error where
  "ErrClientClosed = errorString ''client closed''"

definition NewRateLimitError :: "string \<Rightarrow> int \<Rightarrow> error" where
  "NewRateLimitError message retryAfter = RateLimitError message retryAfter 0 0"

text \<open>
  \<open>errors.As(err, &pe)\<close> with \<open>pe :: *ProviderError\<close>: the first \<open>*ProviderError\<close> on the
  \<open>Unwrap\<close> chain of \<open>err\<close>. Of the error types above, \<open>ProviderError\<close>, \<open>TemplateError\<close> and
  the \<open>fmt.Errorf\<close> wrapper have an \<open>Unwrap\<close> method; none has an \<open>As\<close> method.
\<close>

fun errors_As_ProviderError :: "error \<Rightarrow> error option" where
  "errors_As_ProviderError (ProviderError p c m sc r t cause) =
     Some (ProviderError p c m sc r t cause)"
| "errors_As_ProviderError (wrapError msg e) = errors_As_ProviderError e"
| "errors_As_ProviderError (TemplateError tn opn m cause) =
     (case cause of None \<Rightarrow> None | Some e \<Rightarrow> errors_As_ProviderError e)"
| "errors_As_ProviderError (errorString s) = None"
| "errors_As_ProviderError (ValidationError f m) = None"
| "errors_As_ProviderError (RateLimitError m d lim win) = None"
| "errors_As_ProviderError (BatchError m es tot failed) = None"

text \<open>
  The \<open>RetryableError\<close> interface (a method \<open>Retryable() bool\<close>) is implemented by
  \<open>*ProviderError\<close> alone: \<open>Some r\<close> is the answer of that method, \<open>None\<close> a failed type
  assertion.
\<close>

fun as_RetryableError :: "error \<Rightarrow> bool option" where
  "as_RetryableError (ProviderError p c m sc r t cause) = Some r"
| "as_RetryableError (errorString s) = None"
| "as_RetryableError (ValidationError f m) = None"
| "as_RetryableError (RateLimitError m d lim win) = None"
| "as_RetryableError (TemplateError tn opn m cause) = None"
| "as_RetryableError (BatchError m es tot failed) = None"
| "as_RetryableError (wrapError msg e) = None"

fun IsRetryable :: "error option \<Rightarrow> bool" where
  "IsRetryable None = False"
| "IsRetryable (Some err) =
     (case as_RetryableError err of
        Some r \<Rightarrow> r
      | None \<Rightarrow>
         (case errors_As_ProviderError err of
            Some (ProviderError p c m sc r t cause) \<Rightarrow> r
          | _ \<Rightarrow> False))"

text \<open>
  \<open>GetRetryAfter\<close> asks for a method \<open>RetryAfter() time.Duration\<close>. No error type of these
  sources declares one (\<open>RateLimitError\<close> has the field \<open>RetryAfterDuration\<close> and the
  method \<open>Error\<close> only), so the type assertion fails for every value of \<open>error\<close>.
\<close>

fun as_RetryAfter :: "error \<Rightarrow> int option" where
  "as_RetryAfter e = None"

fun GetRetryAfter :: "error option \<Rightarrow> int" where
  "GetRetryAfter None = 0"
| "GetRetryAfter (Some err) = (case as_RetryAfter err of Some d \<Rightarrow> d | None \<Rightarrow> 0)"

section \<open>Machine integers and time\<close>

text \<open>
  Go's \<open>int\<close> is 64 bits wide on the supported platforms and wraps on overflow;
  \<open>time.Duration\<close> is an \<open>int64\<close> count of nanoseconds. Instants are nanoseconds on
  one time line; \<open>Time.Sub\<close> (and so \<open>time.Since\<close>) saturates at the ends of the
  \<open>Duration\<close> range. The zero \<open>time.Time\<close> is January 1 of year 1, which is
  62135596800 seconds before the Unix epoch.
\<close>

definition wrap64 :: "int \<Rightarrow> int" where
  "wrap64 x = (x + 2 ^ 63) mod 2 ^ 64 - 2 ^ 63"

definition maxDuration :: int where
  "maxDuration = 2 ^ 63 - 1"

definition minDuration :: int where
  "minDuration = - (2 ^ 63)"

definition zeroTime :: int where
  "zeroTime = - 62135596800 * 1000000000"

definition time_Since :: "int \<Rightarrow> int \<Rightarrow> int" where
  "time_Since now t =
     (if now - t > maxDuration then maxDuration
      else if now - t < minDuration then minDuration
      else now - t)"

section \<open>Circuit breaker\<close>

datatype CircuitBreakerState =
  CircuitBreakerClosed | CircuitBreakerOpen | CircuitBreakerHalfOpen

record CircuitBreakerConfig =
  Enabled :: bool
  FailureThreshold :: int
  SuccessThreshold :: int
  Timeout :: int
  ResetTimeout :: int

record CircuitBreaker =
  config :: CircuitBreakerConfig
  state :: CircuitBreakerState
  failureCount :: int
  successCount :: int
  lastFailTime :: int

definition NewCircuitBreaker :: "CircuitBreakerConfig \<Rightarrow> CircuitBreaker" where
  "NewCircuitBreaker cfg =
     \<lparr>config = cfg, state = CircuitBreakerClosed, failureCount = 0, successCount = 0,
      lastFailTime = zeroTime\<rparr>"

text \<open>
  \<open>canExecute\<close> at the instant \<open>now\<close>; it returns the verdict and the breaker, which
  the Open case may have moved to HalfOpen. The second clock reading of the double check
  is taken at the same instant as the first: no other goroutine runs in between in this
  sequential model.
\<close>

definition canExecute :: "CircuitBreaker \<Rightarrow> int \<Rightarrow> bool \<times> CircuitBreaker" where
  "canExecute cb now =
     (case state cb of
        CircuitBreakerClosed \<Rightarrow> (True, cb)
      | CircuitBreakerOpen \<Rightarrow>
          if time_Since now (lastFailTime cb) \<ge> Timeout (config cb) then
            (let cb' = (if state cb = CircuitBreakerOpen
                           \<and> time_Since now (lastFailTime cb) \<ge> Timeout (config cb)
                        then cb\<lparr>state := CircuitBreakerHalfOpen, successCount := 0\<rparr>
                        else cb)
             in (state cb' = CircuitBreakerHalfOpen, cb'))
          else (False, cb)
      | CircuitBreakerHalfOpen \<Rightarrow> (True, cb))"

definition recordResult :: "CircuitBreaker \<Rightarrow> error option \<Rightarrow> int \<Rightarrow> CircuitBreaker" where
  "recordResult cb err now =
     (case err of
        Some e \<Rightarrow>
          (let cb1 = cb\<lparr>failureCount := wrap64 (failureCount cb + 1), lastFailTime := now\<rparr>
           in if state cb1 = CircuitBreakerClosed
                 \<and> failureCount cb1 \<ge> FailureThreshold (config cb1)
              then cb1\<lparr>state := CircuitBreakerOpen\<rparr>
              else if state cb1 = CircuitBreakerHalfOpen
              then cb1\<lparr>state := CircuitBreakerOpen\<rparr>
              else cb1)
      | None \<Rightarrow>
          (let cb1 = cb\<lparr>successCount := wrap64 (successCount cb + 1)\<rparr>;
               cb2 = (if state cb1 = CircuitBreakerHalfOpen
                         \<and> successCount cb1 \<ge> SuccessThreshold (config cb1)
                      then cb1\<lparr>state := CircuitBreakerClosed, failureCount := 0\<rparr>
                      else cb1)
           in if state cb2 = CircuitBreakerClosed
                 \<and> time_Since now (lastFailTime cb2) \<ge> ResetTimeout (config cb2)
              then cb2\<lparr>failureCount := 0\<rparr>
              else cb2))"

text \<open>
  \<open>Execute\<close>. The unit of work \<open>fn\<close> acts on the world outside the breaker (state
  \<open>'w\<close>) and returns its error; \<open>clock\<close> reads the time of a world state.
\<close>

definition Execute ::
  "CircuitBreaker \<Rightarrow> ('w \<Rightarrow> int) \<Rightarrow> ('w \<Rightarrow> error option \<times> 'w) \<Rightarrow> 'w
     \<Rightarrow> error option \<times> CircuitBreaker \<times> 'w" where
  "Execute cb clock fn w =
     (if \<not> Enabled (config cb) then
        (let (err, w') = fn w in (err, cb, w'))
      else
        (let (ok, cb1) = canExecute cb (clock w) in
         if \<not> ok then (Some ErrCircuitBreakerOpen, cb1, w)
         else
           (let (err, w') = fn w;
                cb2 = recordResult cb1 err (clock w')
            in (err, cb2, w'))))"

text \<open>Failures recorded one after the other, each with the error and the instant of its record.\<close>

fun recordFailures :: "CircuitBreaker \<Rightarrow> (error \<times> int) list \<Rightarrow> CircuitBreaker" where
  "recordFailures cb [] = cb"
| "recordFailures cb ((e, t) # fs) = recordFailures (recordResult cb (Some e) t) fs"

section \<open>Retry controller\<close>

text \<open>
  Of \<open>RetryConfig\<close> the loop reads \<open>Enabled\<close> and \<open>MaxAttempts\<close>. The other fields
  (\<open>InitialDelay\<close>, \<open>MaxDelay\<close>, \<open>Multiplier\<close>, \<open>Jitter\<close>) are read by \<open>calculateDelay\<close>
  alone, which computes in \<open>float64\<close> and draws its jitter from \<open>crypto/rand\<close>: the loop
  takes its result as a parameter, a function from the attempt number to the delay.
\<close>

record RetryConfig =
  Enabled :: bool
  MaxAttempts :: int

record RetryManager =
  config :: RetryConfig

text \<open>
  The loop \<open>for attempt := 1; attempt <= MaxAttempts; attempt++\<close> of \<open>Retry\<close>.
  \<open>sleep delay\<close> is the \<open>select\<close> between \<open>ctx.Done()\<close> and \<open>time.After(delay)\<close>:
  it returns \<open>Some (ctx.Err())\<close> when the context is done first, and the world after the
  wait.
\<close>

function retry_loop ::
  "RetryConfig \<Rightarrow> (int \<Rightarrow> int) \<Rightarrow> (int \<Rightarrow> 'w \<Rightarrow> error option \<times> 'w)
     \<Rightarrow> ('w \<Rightarrow> error option \<times> 'w) \<Rightarrow> int \<Rightarrow> error option \<Rightarrow> 'w \<Rightarrow> error option \<times> 'w" where
  "retry_loop cfg calculateDelay sleep fn attempt lastErr w =
     (if attempt \<le> MaxAttempts cfg then
        (let r = fn w; err = fst r; w1 = snd r in
         if err = None then (None, w1)
         else if \<not> IsRetryable err then (err, w1)
         else if attempt = MaxAttempts cfg then (err, w1)
         else
           (let delay = calculateDelay attempt;
                retryAfter = GetRetryAfter err;
                delay' = (if retryAfter > 0 then retryAfter else delay);
                s = sleep delay' w1
            in if fst s \<noteq> None then (fst s, snd s)
               else retry_loop cfg calculateDelay sleep fn (attempt + 1) err (snd s)))
      else (lastErr, w))"
  by pat_completeness auto
termination
  by (relation "measure (\<lambda>(cfg, cd, sl, fn, attempt, lastErr, w). nat (MaxAttempts cfg - attempt))")
     auto

definition Retry ::
  "RetryManager \<Rightarrow> (int \<Rightarrow> int) \<Rightarrow> (int \<Rightarrow> 'w \<Rightarrow> error option \<times> 'w)
     \<Rightarrow> ('w \<Rightarrow> error option \<times> 'w) \<Rightarrow> 'w \<Rightarrow> error option \<times> 'w" where
  "Retry r calculateDelay sleep fn w =
     (if \<not> RetryConfig.Enabled (RetryManager.config r) then fn w
      else retry_loop (RetryManager.config r) calculateDelay sleep fn 1 None w)"

text \<open>
  Instrumentation for statements about how often a unit of work runs and how long the
  controller waits: the world is paired with the number of invocations and the list of
  the delays slept.
\<close>

definition counted ::
  "('w \<Rightarrow> error option \<times> 'w) \<Rightarrow> 'w \<times> nat \<times> int list \<Rightarrow> error option \<times> ('w \<times> nat \<times> int list)" where
  "counted fn = (\<lambda>(w, n, ds). let (err, w') = fn w in (err, (w', Suc n, ds)))"

definition timed ::
  "(int \<Rightarrow> 'w \<Rightarrow> error option \<times> 'w) \<Rightarrow> int \<Rightarrow> 'w \<times> nat \<times> int list
     \<Rightarrow> error option \<times> ('w \<times> nat \<times> int list)" where
  "timed sleep d = (\<lambda>(w, n, ds). let (ce, w') = sleep d w in (ce, (w', n, ds @ [d])))"

section \<open>Messages and their validation\<close>

record Address =
  Name :: string
  Email :: string

record Email =
  From :: Address
  To :: "Address list"
  CC :: "Address list"
  BCC :: "Address list"
  Subject :: string
  HTMLBody :: string
  TextBody :: string

text \<open>
  What the code takes from outside the repository, as parameters:
  \<^item> \<open>mail_ParseAddress_ok a\<close>: \<open>mail.ParseAddress(a.String())\<close> returns no error;
  \<^item> \<open>strings_TrimSpace\<close>;
  \<^item> \<open>clock\<close>: the reading of \<open>time.Now()\<close> in a world state;
  \<^item> \<open>ctx_Done w\<close>: \<open>Some (ctx.Err())\<close> when the caller's context is done in world \<open>w\<close>;
  \<^item> \<open>select_ctx i\<close>: Go's \<open>select\<close> chooses among its ready cases at random; \<open>True\<close>
    means that the \<open>i\<close>-th iteration of the limiter's loop takes the \<open>ctx.Done()\<close> case
    when a token is ready as well;
  \<^item> \<open>sleep\<close> and \<open>calculateDelay\<close>, as the retry loop takes them.
\<close>

record 'w Env =
  mail_ParseAddress_ok :: "Address \<Rightarrow> bool"
  strings_TrimSpace :: "string \<Rightarrow> string"
  clock :: "'w \<Rightarrow> int"
  ctx_Done :: "'w \<Rightarrow> error option"
  select_ctx :: "int \<Rightarrow> bool"
  sleep :: "int \<Rightarrow> 'w \<Rightarrow> error option \<times> 'w"
  calculateDelay :: "int \<Rightarrow> int"

text \<open>\<open>strconv.Itoa\<close>.\<close>

fun digits :: "nat \<Rightarrow> string" where
  "digits n =
     (if n < 10 then [''0123456789'' ! n]
      else digits (n div 10) @ [''0123456789'' ! (n mod 10)])"

definition Itoa :: "int \<Rightarrow> string" where
  "Itoa i = (if i < 0 then ''-'' @ digits (nat (- i)) else digits (nat i))"

definition Valid :: "'w Env \<Rightarrow> Address \<Rightarrow> bool" where
  "Valid env a = (if Address.Email a = [] then False else mail_ParseAddress_ok env a)"

text \<open>The index of the first address of the list that is not \<open>Valid\<close>, counting from \<open>i\<close>.\<close>

fun first_invalid :: "'w Env \<Rightarrow> Address list \<Rightarrow> nat \<Rightarrow> nat option" where
  "first_invalid env [] i = None"
| "first_invalid env (a # as) i =
     (if \<not> Valid env a then Some i else first_invalid env as (Suc i))"

definition Validate :: "'w Env \<Rightarrow> Email \<Rightarrow> error option" where
  "Validate env e =
     (if \<not> Valid env (From e) then
        Some (ValidationError ''from'' ''invalid or missing sender address'')
      else if length (To e) = 0 then
        Some (ValidationError ''to'' ''at least one recipient required'')
      else case first_invalid env (To e) 0 of
        Some i \<Rightarrow>
          Some (ValidationError ''to'' (''invalid recipient address at index '' @ Itoa (int i)))
      | None \<Rightarrow>
       (case first_invalid env (CC e) 0 of
          Some i \<Rightarrow>
            Some (ValidationError ''cc'' (''invalid CC address at index '' @ Itoa (int i)))
        | None \<Rightarrow>
         (case first_invalid env (BCC e) 0 of
            Some i \<Rightarrow>
              Some (ValidationError ''bcc'' (''invalid BCC address at index '' @ Itoa (int i)))
          | None \<Rightarrow>
             if strings_TrimSpace env (Subject e) = [] then
               Some (ValidationError ''subject'' ''subject is required'')
             else if strings_TrimSpace env (TextBody e) = []
                     \<and> strings_TrimSpace env (HTMLBody e) = [] then
               Some (ValidationError ''body'' ''either text or HTML body is required'')
             else None)))"

definition TotalRecipients :: "Email \<Rightarrow> int" where
  "TotalRecipients e = int (length (To e)) + int (length (CC e)) + int (length (BCC e))"

section \<open>Rate limiter\<close>

text \<open>
  Go's run-time panics that the modelled code can raise; a function that may panic returns
  \<open>Inl\<close> of the panic, and otherwise \<open>Inr\<close> of its error result.
\<close>

datatype panic = IndexOutOfRange | DivideByZero | NilDereference

record RateLimitConfig =
  Enabled :: bool
  Rate :: int
  Period :: int
  Burst :: int
  PerRecipient :: bool

text \<open>
  \<open>tokens\<close> is the number of items held in the buffered channel \<open>rl.tokens\<close>, whose
  capacity is \<open>Burst\<close>.
\<close>

record RateLimiter =
  config :: RateLimitConfig
  tokens :: nat
  lastRefill :: int

text \<open>
  The loop \<open>for i := 0; i < tokensNeeded; i++\<close> of \<open>Wait\<close> with its \<open>select\<close>:
  \<open>ctx\<close> is \<open>Some (ctx.Err())\<close> when \<open>ctx.Done()\<close> is ready, a token is ready when
  \<open>tokens > 0\<close>, and the \<open>default\<close> case runs when neither is. The division
  \<open>Period / time.Duration(Rate)\<close> truncates towards zero and panics when \<open>Rate\<close> is 0.
\<close>

function Wait_loop ::
  "RateLimitConfig \<Rightarrow> error option \<Rightarrow> (int \<Rightarrow> bool) \<Rightarrow> int \<Rightarrow> int \<Rightarrow> nat
     \<Rightarrow> (panic + error option) \<times> nat" where
  "Wait_loop cfg ctx pick tokensNeeded i toks =
     (if i < tokensNeeded then
        (if ctx \<noteq> None \<and> (toks = 0 \<or> pick i) then (Inr ctx, toks)
         else if toks > 0 then Wait_loop cfg ctx pick tokensNeeded (i + 1) (toks - 1)
         else if Rate cfg = 0 then (Inl DivideByZero, toks)
         else
           (let retryAfter = wrap64 (Period cfg sdiv Rate cfg)
            in (Inr (Some (NewRateLimitError ''rate limit exceeded'' retryAfter)), toks)))
      else (Inr None, toks))"
  by pat_completeness auto
termination
  by (relation "measure (\<lambda>(cfg, ctx, pick, tokensNeeded, i, toks). nat (tokensNeeded - i))") auto

text \<open>The weight of the acquire, \<open>tokensNeeded\<close> in \<open>Wait\<close>.\<close>

definition tokensNeeded :: "RateLimiter \<Rightarrow> Email \<Rightarrow> int" where
  "tokensNeeded rl email =
     (if PerRecipient (RateLimiter.config rl) then TotalRecipients email else 1)"

definition Wait ::
  "'w Env \<Rightarrow> RateLimiter \<Rightarrow> Email \<Rightarrow> 'w \<Rightarrow> (panic + error option) \<times> RateLimiter" where
  "Wait env rl email w =
     (if \<not> RateLimitConfig.Enabled (RateLimiter.config rl) then (Inr None, rl)
      else
        (let r = Wait_loop (RateLimiter.config rl) (ctx_Done env w) (select_ctx env)
                   (tokensNeeded rl email) 0 (tokens rl)
         in (fst r, rl\<lparr>tokens := snd r\<rparr>)))"

section \<open>Providers and the client\<close>

record SendResult =
  MessageID :: string
  Provider :: string

record BatchFailure =
  Index :: int
  Email :: Email
  Error :: error

text \<open>\<open>Successful\<close> and \<open>Failed\<close> are what \<open>SendBatch\<close> reads of a \<open>BatchResult\<close>.\<close>

record BatchResult =
  Total :: int
  Successful :: "SendResult list"
  Failed :: "BatchFailure list"
  Provider :: string

text \<open>
  A provider is outside the core: its calls act on the world \<open>'w\<close>. A nil result pointer
  is \<open>None\<close>.
\<close>

record 'w Provider =
  Send :: "Email \<Rightarrow> 'w \<Rightarrow> (SendResult option \<times> error option) \<times> 'w"
  SendBatch :: "Email list \<Rightarrow> 'w \<Rightarrow> (BatchResult option \<times> error option) \<times> 'w"
  Name :: string

text \<open>
  Of a template engine \<open>Close\<close> needs only whether its dynamic type has a method
  \<open>Close() error\<close>, and that method.
\<close>

record 'w TemplateEngine =
  Close :: "('w \<Rightarrow> error option \<times> 'w) option"

text \<open>
  The client. A nil \<open>fallback\<close>, \<open>templateEng\<close>, \<open>retryManager\<close>, \<open>rateLimiter\<close> or
  \<open>circuitBreaker\<close> is \<open>None\<close>. The limiter and the breaker are the mutable objects the
  client points to: a call returns the client with their new contents.
\<close>

record 'w Client =
  provider :: "'w Provider"
  fallback :: "'w Provider option"
  templateEng :: "'w TemplateEngine option"
  retryManager :: "RetryManager option"
  rateLimiter :: "RateLimiter option"
  circuitBreaker :: "CircuitBreaker option"
  closed :: bool

text \<open>The timing around the provider call only feeds the tracing span.\<close>

definition sendWithProvider ::
  "'w Client \<Rightarrow> Email \<Rightarrow> 'w Provider \<Rightarrow> 'w \<Rightarrow> (SendResult option \<times> error option) \<times> 'w" where
  "sendWithProvider c email p w = Send p email w"

definition sendBatchWithProvider ::
  "'w Client \<Rightarrow> Email list \<Rightarrow> 'w Provider \<Rightarrow> 'w \<Rightarrow> (BatchResult option \<times> error option) \<times> 'w" where
  "sendBatchWithProvider c emails p w = SendBatch p emails w"

text \<open>
  The closure \<open>sendFn\<close> of \<open>Client.Send\<close>. The \<open>result\<close> it assigns is read afterwards
  for span attributes only, so the model returns the error and the world.
\<close>

definition sendFn :: "'w Client \<Rightarrow> Email \<Rightarrow> 'w \<Rightarrow> error option \<times> 'w" where
  "sendFn c email w =
     (let r1 = sendWithProvider c email (provider c) w;
          sendErr = snd (fst r1);
          w1 = snd r1
      in case fallback c of
           Some fb \<Rightarrow>
             if sendErr \<noteq> None \<and> IsRetryable sendErr then
               (let r2 = sendWithProvider c email fb w1 in (snd (fst r2), snd r2))
             else (sendErr, w1)
         | None \<Rightarrow> (sendErr, w1))"

text \<open>
  \<open>Client.Send\<close> after validation, step by step. The rate-limiting step
  (\<open>if c.rateLimiter != nil\<close>):
\<close>

definition applyRateLimit ::
  "'w Env \<Rightarrow> 'w Client \<Rightarrow> Email \<Rightarrow> 'w \<Rightarrow> (panic + error option) \<times> 'w Client" where
  "applyRateLimit env c email w =
     (case rateLimiter c of
        None \<Rightarrow> (Inr None, c)
      | Some rl \<Rightarrow>
          (let r = Wait env rl email w in (fst r, c\<lparr>rateLimiter := Some (snd r)\<rparr>)))"

text \<open>The circuit-breaker step (\<open>if c.circuitBreaker != nil ... else ...\<close>):\<close>

definition applyCircuitBreaker ::
  "'w Env \<Rightarrow> 'w Client \<Rightarrow> Email \<Rightarrow> 'w \<Rightarrow> error option \<times> 'w Client \<times> 'w" where
  "applyCircuitBreaker env c email w =
     (case circuitBreaker c of
        Some cb \<Rightarrow>
          (case Execute cb (clock env) (sendFn c email) w of
             (err, cb', w') \<Rightarrow> (err, c\<lparr>circuitBreaker := Some cb'\<rparr>, w'))
      | None \<Rightarrow> (case sendFn c email w of (err, w') \<Rightarrow> (err, c, w')))"

text \<open>The retry step (\<open>if err != nil && c.retryManager != nil && IsRetryable(err)\<close>):\<close>

definition applyRetry ::
  "'w Env \<Rightarrow> 'w Client \<Rightarrow> Email \<Rightarrow> error option \<Rightarrow> 'w \<Rightarrow> error option \<times> 'w" where
  "applyRetry env c email err w =
     (case retryManager c of
        Some rm \<Rightarrow>
          if err \<noteq> None \<and> IsRetryable err then
            Retry rm (calculateDelay env) (sleep env) (sendFn c email) w
          else (err, w)
      | None \<Rightarrow> (err, w))"

text \<open>
  \<open>Client.Send\<close>. The span attributes are built first, and their first argument reads
  \<open>email.To[0]\<close>: an index out of range when \<open>To\<close> is empty.
\<close>

definition Client_Send ::
  "'w Env \<Rightarrow> 'w Client \<Rightarrow> Email \<Rightarrow> 'w \<Rightarrow> (panic + error option) \<times> 'w Client \<times> 'w" where
  "Client_Send env c email w =
     (if closed c then (Inr (Some ErrClientClosed), c, w)
      else if To email = [] then (Inl IndexOutOfRange, c, w)
      else case Validate env email of
        Some verr \<Rightarrow> (Inr (Some verr), c, w)
      | None \<Rightarrow>
         (case applyRateLimit env c email w of
            (Inl p, c1) \<Rightarrow> (Inl p, c1, w)
          | (Inr (Some rerr), c1) \<Rightarrow> (Inr (Some rerr), c1, w)
          | (Inr None, c1) \<Rightarrow>
             (case applyCircuitBreaker env c1 email w of
                (err, c2, w1) \<Rightarrow>
                  (case applyRetry env c2 email err w1 of
                     (err', w2) \<Rightarrow> (Inr err', c2, w2)))))"

text \<open>
  The validation loop of \<open>Client.SendBatch\<close>, from index \<open>i\<close> on. The error of
  \<open>fmt.Errorf("email at index %d: %w", i, err)\<close> wraps \<open>err\<close> behind the formatted prefix.
\<close>

fun validate_all :: "'w Env \<Rightarrow> Email list \<Rightarrow> nat \<Rightarrow> error option" where
  "validate_all env [] i = None"
| "validate_all env (email # rest) i =
     (case Validate env email of
        Some err \<Rightarrow> Some (wrapError (''email at index '' @ Itoa (int i) @ '': '') err)
      | None \<Rightarrow> validate_all env rest (Suc i))"

text \<open>
  The loop of \<open>sendBatchIndividually\<close> from index \<open>i\<close> on, with its counters and the
  errors collected so far. The child span's attributes read \<open>email.To[0]\<close>.
\<close>

fun sendBatchIndividually_loop ::
  "'w Env \<Rightarrow> Email list \<Rightarrow> nat \<Rightarrow> int \<Rightarrow> int \<Rightarrow> (int \<times> error) list \<Rightarrow> 'w Client \<Rightarrow> 'w
     \<Rightarrow> (panic + int \<times> int \<times> (int \<times> error) list) \<times> 'w Client \<times> 'w" where
  "sendBatchIndividually_loop env [] i successCnt failureCnt batchErrors c w =
     (Inr (successCnt, failureCnt, batchErrors), c, w)"
| "sendBatchIndividually_loop env (email # rest) i successCnt failureCnt batchErrors c w =
     (if To email = [] then (Inl IndexOutOfRange, c, w)
      else case Client_Send env c email w of
        (Inl p, c', w') \<Rightarrow> (Inl p, c', w')
      | (Inr (Some err), c', w') \<Rightarrow>
          sendBatchIndividually_loop env rest (Suc i) successCnt (failureCnt + 1)
            (batchErrors @ [(int i, err)]) c' w'
      | (Inr None, c', w') \<Rightarrow>
          sendBatchIndividually_loop env rest (Suc i) (successCnt + 1) failureCnt
            batchErrors c' w')"

definition sendBatchIndividually ::
  "'w Env \<Rightarrow> 'w Client \<Rightarrow> Email list \<Rightarrow> 'w \<Rightarrow> (panic + error option) \<times> 'w Client \<times> 'w" where
  "sendBatchIndividually env c emails w =
     (case sendBatchIndividually_loop env emails 0 0 0 [] c w of
        (Inl p, c', w') \<Rightarrow> (Inl p, c', w')
      | (Inr (successCnt, failureCnt, batchErrors), c', w') \<Rightarrow>
          if failureCnt > 0 then
            (Inr (Some (BatchError
               (Itoa failureCnt @ ''/'' @ Itoa (int (length emails))
                  @ '' emails failed in fallback individual send'')
               batchErrors (int (length emails)) failureCnt)), c', w')
          else (Inr None, c', w'))"

text \<open>
  \<open>Client.SendBatch\<close>. A provider that returns neither an error nor a result makes
  \<open>batchResult.Successful\<close> a nil dereference.
\<close>

definition Client_SendBatch ::
  "'w Env \<Rightarrow> 'w Client \<Rightarrow> Email list \<Rightarrow> 'w \<Rightarrow> (panic + error option) \<times> 'w Client \<times> 'w" where
  "Client_SendBatch env c emails w =
     (if closed c then (Inr (Some ErrClientClosed), c, w)
      else if length emails = 0 then (Inr None, c, w)
      else case validate_all env emails 0 of
        Some validationErr \<Rightarrow> (Inr (Some validationErr), c, w)
      | None \<Rightarrow>
         (let r = sendBatchWithProvider c emails (provider c) w;
              batchResult = fst (fst r);
              err = snd (fst r);
              w1 = snd r
          in if err \<noteq> None \<and> fallback c \<noteq> None then sendBatchIndividually env c emails w1
             else if err \<noteq> None then (Inr err, c, w1)
             else case batchResult of
               None \<Rightarrow> (Inl NilDereference, c, w1)
             | Some br \<Rightarrow>
                 (let failureCnt = int (length (Failed br)) in
                  if failureCnt > 0 then
                    (Inr (Some (BatchError
                       (Itoa failureCnt @ ''/'' @ Itoa (int (length emails)) @ '' emails failed'')
                       (map (\<lambda>failure. (Index failure, Error failure)) (Failed br))
                       (int (length emails)) failureCnt)), c, w1)
                  else (Inr None, c, w1))))"

text \<open>\<open>Client.Close\<close>.\<close>

definition Client_Close :: "'w Client \<Rightarrow> 'w \<Rightarrow> error option \<times> 'w Client \<times> 'w" where
  "Client_Close c w =
     (if closed c then (None, c, w)
      else
        (let c1 = c\<lparr>closed := True\<rparr> in
         case templateEng c1 of
           None \<Rightarrow> (None, c1, w)
         | Some te \<Rightarrow>
            (case Close te of
               None \<Rightarrow> (None, c1, w)
             | Some closer \<Rightarrow>
                (case closer w of
                   (Some err, w') \<Rightarrow>
                     (Some (wrapError ''failed to close template engine: '' err), c1, w')
                 | (None, w') \<Rightarrow> (None, c1, w')))))"

section \<open>The retry step as the specification words it\<close>

text \<open>
  Section 4.5 of the specification composes the two mechanisms as "Retry invokes a unit
  of work that itself invokes CircuitBreaker.execute around the provider call". The
  definitions below follow these words, for comparison with \<open>applyRetry\<close> and
  \<open>Client_Send\<close> above, which follow the code: the unit of work handed to \<open>Retry\<close>
  is \<open>sendFn\<close> run through \<open>Execute\<close>, the breaker travelling with the world.
\<close>

definition guardedFn ::
  "'w Env \<Rightarrow> 'w Client \<Rightarrow> Email \<Rightarrow> CircuitBreaker \<times> 'w \<Rightarrow> error option \<times> (CircuitBreaker \<times> 'w)" where
  "guardedFn env c email =
     (\<lambda>(cb, w). case Execute cb (clock env) (sendFn c email) w of
                  (err, cb', w') \<Rightarrow> (err, (cb', w')))"

definition applyRetry_spec ::
  "'w Env \<Rightarrow> 'w Client \<Rightarrow> Email \<Rightarrow> error option \<Rightarrow> 'w \<Rightarrow> error option \<times> 'w Client \<times> 'w" where
  "applyRetry_spec env c email err w =
     (case retryManager c of
        Some rm \<Rightarrow>
          if err \<noteq> None \<and> IsRetryable err then
            (case circuitBreaker c of
               Some cb \<Rightarrow>
                 (case Retry rm (calculateDelay env)
                         (\<lambda>d (cb, w). case sleep env d w of (ce, w') \<Rightarrow> (ce, (cb, w')))
                         (guardedFn env c email) (cb, w) of
                    (err', (cb', w')) \<Rightarrow> (err', c\<lparr>circuitBreaker := Some cb'\<rparr>, w'))
             | None \<Rightarrow>
                 (case Retry rm (calculateDelay env) (sleep env) (sendFn c email) w of
                    (err', w') \<Rightarrow> (err', c, w')))
          else (err, c, w)
      | None \<Rightarrow> (err, c, w))"

definition Client_Send_spec ::
  "'w Env \<Rightarrow> 'w Client \<Rightarrow> Email \<Rightarrow> 'w \<Rightarrow> (panic + error option) \<times> 'w Client \<times> 'w" where
  "Client_Send_spec env c email w =
     (if closed c then (Inr (Some ErrClientClosed), c, w)
      else if To email = [] then (Inl IndexOutOfRange, c, w)
      else case Validate env email of
        Some verr \<Rightarrow> (Inr (Some verr), c, w)
      | None \<Rightarrow>
         (case applyRateLimit env c email w of
            (Inl p, c1) \<Rightarrow> (Inl p, c1, w)
          | (Inr (Some rerr), c1) \<Rightarrow> (Inr (Some rerr), c1, w)
          | (Inr None, c1) \<Rightarrow>
             (case applyCircuitBreaker env c1 email w of
                (err, c2, w1) \<Rightarrow>
                  (case applyRetry_spec env c2 email err w1 of
                     (err', c3, w2) \<Rightarrow> (Inr err', c3, w2)))))"

section \<open>Concrete scenarios\<close>

text \<open>
  The world of the scenarios is the log of the calls made to the outside, in order.
\<close>

definition cfg3 :: CircuitBreakerConfig where
  "cfg3 = \<lparr>CircuitBreakerConfig.Enabled = True, FailureThreshold = 3, SuccessThreshold = 2,
      Timeout = 60000000000, ResetTimeout = 300000000000\<rparr>"

definition throttled :: error where
  "throttled = ProviderError ''ses'' ''Throttling'' ''slow down'' 503 True True None"

definition failing :: "string list \<Rightarrow> error option \<times> string list" where
  "failing w = (Some throttled, w @ [''work''])"

definition three_failures :: "(error \<times> int) list" where
  "three_failures = [(throttled, 10), (throttled, 20), (throttled, 30)]"

definition env0 :: "string list Env" where
  "env0 = \<lparr>mail_ParseAddress_ok = (\<lambda>a. CHR ''@'' \<in> set (Address.Email a)),
      strings_TrimSpace =
        (\<lambda>s. rev (dropWhile (\<lambda>c. c = CHR '' '') (rev (dropWhile (\<lambda>c. c = CHR '' '') s)))),
      clock = (\<lambda>w. 40),
      ctx_Done = (\<lambda>w. None),
      select_ctx = (\<lambda>i. False),
      sleep = (\<lambda>d w. (None, w @ [''sleep''])),
      calculateDelay = (\<lambda>attempt. 100000000)\<rparr>"

definition ann :: Address where
  "ann = \<lparr>Address.Name = ''Ann'', Address.Email = ''ann@example.com''\<rparr>"

definition bob :: Address where
  "bob = \<lparr>Address.Name = ''Bob'', Address.Email = ''bob@example.com''\<rparr>"

definition letter :: Email where
  "letter = \<lparr>From = ann, To = [bob], CC = [], BCC = [], Subject = ''Hi'', HTMLBody = [],
      TextBody = ''Hello''\<rparr>"

definition no_subject :: Email where
  "no_subject = letter\<lparr>Subject := ''  ''\<rparr>"

definition no_recipient :: Email where
  "no_recipient = letter\<lparr>To := []\<rparr>"

definition three_recipients :: Email where
  "three_recipients = letter\<lparr>To := [bob, ann], CC := [ann]\<rparr>"

definition rejected :: error where
  "rejected = ProviderError ''ses'' ''Rejected'' ''bad address'' 400 False False None"

definition rejecting :: "string list \<Rightarrow> error option \<times> string list" where
  "rejecting w = (Some rejected, w @ [''work''])"

definition five_attempts :: RetryManager where
  "five_attempts = \<lparr>RetryManager.config = \<lparr>RetryConfig.Enabled = True, MaxAttempts = 5\<rparr>\<rparr>"

definition ses_down :: "string list Provider" where
  "ses_down =
     \<lparr>Send = (\<lambda>e w. ((None, Some throttled), w @ [''ses.Send''])),
      SendBatch = (\<lambda>es w. ((None, Some throttled), w @ [''ses.SendBatch''])),
      Name = ''ses''\<rparr>"

definition smtp_up :: "string list Provider" where
  "smtp_up =
     \<lparr>Send = (\<lambda>e w. ((Some \<lparr>MessageID = ''m1'', SendResult.Provider = ''smtp''\<rparr>, None),
                 w @ [''smtp.Send''])),
      SendBatch = (\<lambda>es w. ((Some \<lparr>Total = int (length es), Successful = [], Failed = [],
                 BatchResult.Provider = ''smtp''\<rparr>, None), w @ [''smtp.SendBatch''])),
      Name = ''smtp''\<rparr>"

definition plain_client :: "string list Client" where
  "plain_client =
     \<lparr>provider = ses_down, fallback = Some smtp_up,
      templateEng = Some \<lparr>Close = Some (\<lambda>w. (None, w @ [''templates.Close'']))\<rparr>,
      retryManager = None, rateLimiter = None, circuitBreaker = None, closed = False\<rparr>"

definition per_recipient_limiter :: RateLimiter where
  "per_recipient_limiter =
     \<lparr>RateLimiter.config = \<lparr>RateLimitConfig.Enabled = True, Rate = 100, Period = 60000000000,
        Burst = 10, PerRecipient = True\<rparr>,
      tokens = 2, lastRefill = 0\<rparr>"

definition spam :: Email where
  "spam = letter\<lparr>Subject := ''spam''\<rparr>"

definition smtp_picky :: "string list Provider" where
  "smtp_picky =
     \<lparr>Send = (\<lambda>e w. if Subject e = ''spam''
                 then ((None, Some rejected), w @ [''smtp.Send''])
                 else ((Some \<lparr>MessageID = ''m1'', SendResult.Provider = ''smtp''\<rparr>, None),
                       w @ [''smtp.Send''])),
      SendBatch = (\<lambda>es w. ((None, Some rejected), w @ [''smtp.SendBatch''])),
      Name = ''smtp''\<rparr>"

definition picky_client :: "string list Client" where
  "picky_client = plain_client\<lparr>fallback := Some smtp_picky\<rparr>"

definition cfg1 :: CircuitBreakerConfig where
  "cfg1 = \<lparr>CircuitBreakerConfig.Enabled = True, FailureThreshold = 1, SuccessThreshold = 1,
      Timeout = 60000000000, ResetTimeout = 300000000000\<rparr>"

definition two_attempts :: RetryManager where
  "two_attempts = \<lparr>RetryManager.config = \<lparr>RetryConfig.Enabled = True, MaxAttempts = 2\<rparr>\<rparr>"

definition guarded_client :: "string list Client" where
  "guarded_client =
     \<lparr>provider = ses_down, fallback = None, templateEng = None,
      retryManager = Some two_attempts, rateLimiter = None,
      circuitBreaker = Some (NewCircuitBreaker cfg1), closed = False\<rparr>"

definition tripped :: CircuitBreaker where
  "tripped = \<lparr>CircuitBreaker.config = cfg1, state = CircuitBreakerOpen, failureCount = 1,
      successCount = 0, lastFailTime = 40\<rparr>"

definition open_client :: "string list Client" where
  "open_client = guarded_client\<lparr>circuitBreaker := Some tripped\<rparr>"

section \<open>Circuit breaker: opening and rejecting\<close>

lemma wrap64_id: "- (2 ^ 63) \<le> x \<Longrightarrow> x < 2 ^ 63 \<Longrightarrow> wrap64 x = x"
  by (simp add: wrap64_def)

lemma recordFailures_append:
  "recordFailures cb (xs @ ys) = recordFailures (recordFailures cb xs) ys"
  by (induction xs arbitrary: cb) auto

lemma recordFailures_below:
  "state cb = CircuitBreakerClosed \<Longrightarrow> 0 \<le> failureCount cb \<Longrightarrow>
   failureCount cb + int (length fs) < FailureThreshold (CircuitBreaker.config cb) \<Longrightarrow>
   FailureThreshold (CircuitBreaker.config cb) < 2 ^ 63 \<Longrightarrow>
   state (recordFailures cb fs) = CircuitBreakerClosed
   \<and> failureCount (recordFailures cb fs) = failureCount cb + int (length fs)
   \<and> CircuitBreaker.config (recordFailures cb fs) = CircuitBreaker.config cb"
proof (induction fs arbitrary: cb)
  case Nil
  then show ?case by simp
next
  case (Cons f fs)
  obtain e t where f: "f = (e, t)" by (cases f)
  let ?cb1 = "recordResult cb (Some e) t"
  have w: "wrap64 (failureCount cb + 1) = failureCount cb + 1"
    using Cons.prems by (intro wrap64_id) auto
  have s1: "state ?cb1 = CircuitBreakerClosed"
    and c1: "failureCount ?cb1 = failureCount cb + 1"
    and g1: "CircuitBreaker.config ?cb1 = CircuitBreaker.config cb"
    using Cons.prems w by (auto simp: recordResult_def Let_def)
  have "state (recordFailures ?cb1 fs) = CircuitBreakerClosed
   \<and> failureCount (recordFailures ?cb1 fs) = failureCount ?cb1 + int (length fs)
   \<and> CircuitBreaker.config (recordFailures ?cb1 fs) = CircuitBreaker.config ?cb1"
    using Cons.prems s1 c1 g1 by (intro Cons.IH) auto
  then show ?case using f c1 g1 by simp
qed

lemma recordResult_reaches:
  assumes "state cb = CircuitBreakerClosed" and "0 \<le> failureCount cb"
    and "failureCount cb + 1 = FailureThreshold (CircuitBreaker.config cb)"
    and "FailureThreshold (CircuitBreaker.config cb) < 2 ^ 63"
  shows "recordResult cb (Some e) t =
     cb\<lparr>failureCount := FailureThreshold (CircuitBreaker.config cb), lastFailTime := t,
        state := CircuitBreakerOpen\<rparr>"
proof -
  have w: "wrap64 (failureCount cb + 1) = failureCount cb + 1"
    using assms by (intro wrap64_id) auto
  show ?thesis using assms w by (simp add: recordResult_def Let_def)
qed

lemma recordFailures_threshold:
  assumes "1 \<le> FailureThreshold cfg" "FailureThreshold cfg < 2 ^ 63"
    "int (length fs) = FailureThreshold cfg"
  shows "state (recordFailures (NewCircuitBreaker cfg) fs) = CircuitBreakerOpen
    \<and> CircuitBreaker.config (recordFailures (NewCircuitBreaker cfg) fs) = cfg
    \<and> lastFailTime (recordFailures (NewCircuitBreaker cfg) fs) = snd (last fs)
    \<and> failureCount (recordFailures (NewCircuitBreaker cfg) fs) = FailureThreshold cfg"
proof -
  from assms have ne: "fs \<noteq> []" by auto
  then obtain gs e t where fs: "fs = gs @ [(e, t)]"
    by (metis rev_exhaust surj_pair)
  let ?cb0 = "NewCircuitBreaker cfg"
  let ?cb1 = "recordFailures ?cb0 gs"
  have b: "state ?cb1 = CircuitBreakerClosed
   \<and> failureCount ?cb1 = failureCount ?cb0 + int (length gs)
   \<and> CircuitBreaker.config ?cb1 = CircuitBreaker.config ?cb0"
    using assms fs by (intro recordFailures_below) (auto simp: NewCircuitBreaker_def)
  have c0: "failureCount ?cb0 = 0" "CircuitBreaker.config ?cb0 = cfg"
    by (simp_all add: NewCircuitBreaker_def)
  have r: "recordResult ?cb1 (Some e) t =
     ?cb1\<lparr>failureCount := FailureThreshold (CircuitBreaker.config ?cb1), lastFailTime := t,
        state := CircuitBreakerOpen\<rparr>"
    using assms fs b c0 by (intro recordResult_reaches) auto
  have "recordFailures ?cb0 fs = recordResult ?cb1 (Some e) t"
    by (simp add: fs recordFailures_append)
  then show ?thesis using r b c0 fs by simp
qed

lemma Execute_Open_rejects:
  assumes "CircuitBreakerConfig.Enabled (CircuitBreaker.config cb)"
    and "state cb = CircuitBreakerOpen"
    and "time_Since (clk w) (lastFailTime cb) < Timeout (CircuitBreaker.config cb)"
  shows "Execute cb clk fn w = (Some ErrCircuitBreakerOpen, cb, w)"
  using assms by (simp add: Execute_def canExecute_def)

text \<open>
  Claim C4. A fresh enabled breaker (Closed, no failure counted) on which
  \<open>FailureThreshold\<close> failures are recorded in a row is Open, its last-failure time being
  that of the last record. The next \<open>Execute\<close>, at an instant when less than \<open>Timeout\<close>
  has passed since that failure, returns \<open>ErrCircuitBreakerOpen\<close> and leaves the
  breaker and the world as they were, whatever the unit of work is: the unit of work is
  not invoked, as its invocation count shows. The threshold is at least 1, as the data
  model requires, and is a Go \<open>int\<close>.
\<close>

theorem breaker_opens_and_rejects:
  assumes "CircuitBreakerConfig.Enabled cfg"
    and "1 \<le> FailureThreshold cfg" and "FailureThreshold cfg < 2 ^ 63"
    and "int (length fs) = FailureThreshold cfg"
    and "cb = recordFailures (NewCircuitBreaker cfg) fs"
    and "time_Since (clk w) (lastFailTime cb) < Timeout cfg"
  shows "state cb = CircuitBreakerOpen
    \<and> lastFailTime cb = snd (last fs)
    \<and> Execute cb clk fn w = (Some ErrCircuitBreakerOpen, cb, w)
    \<and> Execute cb (clk \<circ> fst) (counted fn) (w, n, ds)
        = (Some ErrCircuitBreakerOpen, cb, (w, n, ds))"
proof -
  have t: "state cb = CircuitBreakerOpen \<and> CircuitBreaker.config cb = cfg
      \<and> lastFailTime cb = snd (last fs) \<and> failureCount cb = FailureThreshold cfg"
    unfolding assms(5) using assms(2-4) by (rule recordFailures_threshold)
  have e1: "Execute cb clk fn w = (Some ErrCircuitBreakerOpen, cb, w)"
    using assms(1,6) t by (intro Execute_Open_rejects) auto
  have e2: "Execute cb (clk \<circ> fst) (counted fn) (w, n, ds)
      = (Some ErrCircuitBreakerOpen, cb, (w, n, ds))"
    using assms(1,6) t by (intro Execute_Open_rejects) auto
  show ?thesis using t e1 e2 by simp
qed

theorem breaker_opens_and_rejects_witness:
  "CircuitBreakerConfig.Enabled cfg3 \<and> 1 \<le> FailureThreshold cfg3
   \<and> int (length three_failures) = FailureThreshold cfg3
   \<and> time_Since 40 (lastFailTime (recordFailures (NewCircuitBreaker cfg3) three_failures))
        < Timeout cfg3
   \<and> state (recordFailures (NewCircuitBreaker cfg3) three_failures) = CircuitBreakerOpen
   \<and> Execute (recordFailures (NewCircuitBreaker cfg3) three_failures)
        ((\<lambda>w. 40) \<circ> fst) (counted failing) ([], 0, [])
      = (Some ErrCircuitBreakerOpen,
         recordFailures (NewCircuitBreaker cfg3) three_failures, ([], 0, []))"
proof -
  let ?cb = "recordFailures (NewCircuitBreaker cfg3) three_failures"
  have h1: "CircuitBreakerConfig.Enabled cfg3" by (simp add: cfg3_def)
  have h2: "1 \<le> FailureThreshold cfg3" by (simp add: cfg3_def)
  have h3: "FailureThreshold cfg3 < 2 ^ 63" by (simp add: cfg3_def)
  have h4: "int (length three_failures) = FailureThreshold cfg3"
    by (simp add: cfg3_def three_failures_def)
  have h6: "time_Since ((\<lambda>w. 40) ([] :: string list)) (lastFailTime ?cb) < Timeout cfg3"
    by (simp add: cfg3_def three_failures_def NewCircuitBreaker_def recordResult_def
        wrap64_def time_Since_def maxDuration_def minDuration_def Let_def)
  show ?thesis
    using breaker_opens_and_rejects [where clk = "\<lambda>w. 40" and w = "[] :: string list"
        and fn = failing and n = 0 and ds = "[]", OF h1 h2 h3 h4 refl h6] h1 h2 h4 h6
    by simp
qed

section \<open>Retry controller: a failure that is not retryable\<close>

text \<open>
  Claim C6. With retry enabled and \<open>MaxAttempts\<close> at least 1, a unit of work whose first
  invocation fails with an error that \<open>IsRetryable\<close> rejects is invoked exactly once:
  \<open>Retry\<close> returns that error and the world the one invocation left, and the
  instrumented run counts one invocation and no delay slept.
\<close>

theorem retry_nonretryable_once:
  assumes "RetryConfig.Enabled (RetryManager.config r)"
    and "1 \<le> MaxAttempts (RetryManager.config r)"
    and "fn w = (Some e, w1)"
    and "\<not> IsRetryable (Some e)"
  shows "Retry r cd slp fn w = (Some e, w1)
    \<and> Retry r cd (timed slp) (counted fn) (w, 0, []) = (Some e, (w1, 1, []))"
proof -
  have a: "Retry r cd slp fn w = (Some e, w1)"
    using assms by (simp add: Retry_def retry_loop.simps [of _ _ _ _ 1] Let_def)
  have c: "counted fn (w, 0, []) = (Some e, (w1, 1, []))"
    using assms(3) by (simp add: counted_def)
  have b: "Retry r cd (timed slp) (counted fn) (w, 0, []) = (Some e, (w1, 1, []))"
    using assms(1,2,4) c by (simp add: Retry_def retry_loop.simps [of _ _ _ _ 1] Let_def)
  show ?thesis using a b by simp
qed

theorem retry_nonretryable_once_witness:
  "RetryConfig.Enabled (RetryManager.config five_attempts)
   \<and> 1 \<le> MaxAttempts (RetryManager.config five_attempts)
   \<and> rejecting [] = (Some rejected, [''work''])
   \<and> \<not> IsRetryable (Some rejected)
   \<and> Retry five_attempts (calculateDelay env0) (timed (sleep env0)) (counted rejecting)
        ([], 0, []) = (Some rejected, ([''work''], 1, []))"
proof -
  have h1: "RetryConfig.Enabled (RetryManager.config five_attempts)"
    by (simp add: five_attempts_def)
  have h2: "1 \<le> MaxAttempts (RetryManager.config five_attempts)"
    by (simp add: five_attempts_def)
  have h3: "rejecting [] = (Some rejected, [''work''])" by (simp add: rejecting_def)
  have h4: "\<not> IsRetryable (Some rejected)" by (simp add: rejected_def)
  show ?thesis
    using retry_nonretryable_once [where fn = rejecting and w = "[]"
        and cd = "calculateDelay env0" and slp = "sleep env0", OF h1 h2 h3 h4]
      h1 h2 h3 h4 by simp
qed

section \<open>Closing the client\<close>

text \<open>
  Claim C10. \<open>Close\<close> on a closed client returns nil and leaves the client and the world
  as they were, so no release action runs; and whatever a first \<open>Close\<close> returned, the
  client it leaves is closed and a second \<open>Close\<close> is such a no-op.
\<close>

theorem close_idempotent:
  "(closed c \<longrightarrow> Client_Close c w = (None, c, w))
   \<and> (\<forall>r c1 w1. Client_Close c w = (r, c1, w1)
         \<longrightarrow> closed c1 \<and> Client_Close c1 w1 = (None, c1, w1))"
proof -
  have a: "closed c \<longrightarrow> Client_Close c w = (None, c, w)"
    by (simp add: Client_Close_def)
  have b: "closed c1" if "Client_Close c w = (r, c1, w1)" for r c1 w1
    using that by (auto simp: Client_Close_def Let_def split: if_splits option.splits prod.splits)
  have "Client_Close c1 w1 = (None, c1, w1)" if "Client_Close c w = (r, c1, w1)" for r c1 w1
    using b [OF that] by (simp add: Client_Close_def)
  with a b show ?thesis by blast
qed

theorem close_idempotent_witness:
  "Client_Close plain_client [] = (None, plain_client\<lparr>closed := True\<rparr>, [''templates.Close''])
   \<and> closed (plain_client\<lparr>closed := True\<rparr>)
   \<and> Client_Close (plain_client\<lparr>closed := True\<rparr>) [''templates.Close'']
       = (None, plain_client\<lparr>closed := True\<rparr>, [''templates.Close''])"
proof -
  have h: "Client_Close plain_client [] =
      (None, plain_client\<lparr>closed := True\<rparr>, [''templates.Close''])"
    by (simp add: Client_Close_def plain_client_def)
  have c: "closed (plain_client\<lparr>closed := True\<rparr>)" by simp
  have "Client_Close (plain_client\<lparr>closed := True\<rparr>) [''templates.Close'']
       = (None, plain_client\<lparr>closed := True\<rparr>, [''templates.Close''])"
    using close_idempotent [of "plain_client\<lparr>closed := True\<rparr>" "[''templates.Close'']"] c
    by (elim conjE) (erule mp)
  with h c show ?thesis by (intro conjI)
qed

section \<open>Send on a message without recipients\<close>

text \<open>
  Claim C8. On an open client, \<open>Send\<close> of a message whose \<open>To\<close> list is empty
  panics with an index out of range, before validation and before any provider is called
  (client and world unchanged). \<open>Validate\<close> itself rejects every such message, with the
  error "at least one recipient required" when the sender address is valid.
\<close>

theorem send_empty_To_panics:
  assumes "\<not> closed c" and "To email = []"
  shows "Client_Send env c email w = (Inl IndexOutOfRange, c, w)
    \<and> (Valid env (From email)
         \<longrightarrow> Validate env email = Some (ValidationError ''to'' ''at least one recipient required''))
    \<and> Validate env email \<noteq> None"
  using assms by (simp add: Client_Send_def Validate_def)

theorem send_empty_To_panics_witness:
  "\<not> closed plain_client \<and> To no_recipient = [] \<and> Valid env0 (From no_recipient)
   \<and> Client_Send env0 plain_client no_recipient [] = (Inl IndexOutOfRange, plain_client, [])
   \<and> Validate env0 no_recipient
       = Some (ValidationError ''to'' ''at least one recipient required'')"
proof -
  have h1: "\<not> closed plain_client" by (simp add: plain_client_def)
  have h2: "To no_recipient = []" by (simp add: no_recipient_def)
  have h3: "Valid env0 (From no_recipient)"
    by (simp add: no_recipient_def letter_def ann_def Valid_def env0_def)
  show ?thesis
    using send_empty_To_panics [where env = env0 and w = "[]", OF h1 h2] h1 h2 h3 by simp
qed

section \<open>Facts about the scenarios\<close>

lemma Validate_letter: "Validate env0 letter = None"
  by (simp add: Validate_def Valid_def env0_def letter_def ann_def bob_def)

lemma Validate_spam: "Validate env0 spam = None"
  by (simp add: Validate_def Valid_def env0_def spam_def letter_def ann_def bob_def)

lemma Validate_no_subject:
  "Validate env0 no_subject = Some (ValidationError ''subject'' ''subject is required'')"
  by (simp add: Validate_def Valid_def env0_def no_subject_def letter_def ann_def bob_def)

lemma Validate_no_recipient:
  "Validate env0 no_recipient = Some (ValidationError ''to'' ''at least one recipient required'')"
  by (simp add: Validate_def Valid_def env0_def no_recipient_def letter_def ann_def)

lemma letter_To: "To letter \<noteq> []" by (simp add: letter_def)

lemma spam_To: "To spam \<noteq> []" by (simp add: spam_def letter_def)

lemma Itoa_1: "Itoa 1 = ''1''"
  by (simp add: Itoa_def)

lemma Itoa_3: "Itoa 3 = ''3''"
  by (simp add: Itoa_def)

lemma Validate_None_To: "Validate env e = None \<Longrightarrow> To e \<noteq> []"
  by (auto simp: Validate_def split: if_splits)

section \<open>Rate limiter: an acquire heavier than the bucket\<close>

lemma Wait_loop_short:
  "Rate cfg \<noteq> 0 \<Longrightarrow> int toks < needed - i \<Longrightarrow>
   Wait_loop cfg None pick needed i toks
     = (Inr (Some (NewRateLimitError ''rate limit exceeded''
           (wrap64 (Period cfg sdiv Rate cfg)))), 0)"
proof (induction toks arbitrary: i)
  case 0
  then show ?case by (subst Wait_loop.simps) simp
next
  case (Suc toks)
  have "Wait_loop cfg None pick needed i (Suc toks)
      = Wait_loop cfg None pick needed (i + 1) toks"
    using Suc.prems by (subst Wait_loop.simps) simp
  also have "\<dots> = (Inr (Some (NewRateLimitError ''rate limit exceeded''
           (wrap64 (Period cfg sdiv Rate cfg)))), 0)"
    using Suc.prems by (intro Suc.IH) auto
  finally show ?case .
qed

text \<open>
  Claim C2, as the code has it. On an enabled limiter (with \<open>Rate\<close> not 0) holding
  \<open>t\<close> tokens, and with a context that is not done, a \<open>Wait\<close> of weight
  \<open>tokensNeeded > t\<close> returns the rate-limit error with retry-after \<open>Period / Rate\<close>,
  and it has taken every token that was there: the bucket holds 0 tokens afterwards. The
  tokens taken before the shortage shows are not given back, so no token is consumed only
  when \<open>t = 0\<close>.
\<close>

theorem wait_short_drains_bucket:
  assumes "RateLimitConfig.Enabled (RateLimiter.config rl)"
    and "Rate (RateLimiter.config rl) \<noteq> 0"
    and "ctx_Done env w = None"
    and "int (tokens rl) < tokensNeeded rl email"
  shows "Wait env rl email w
     = (Inr (Some (NewRateLimitError ''rate limit exceeded''
           (wrap64 (Period (RateLimiter.config rl) sdiv Rate (RateLimiter.config rl))))),
        rl\<lparr>tokens := 0\<rparr>)"
  using assms Wait_loop_short [of "RateLimiter.config rl" "tokens rl" "tokensNeeded rl email" 0]
  by (simp add: Wait_def tokensNeeded_def Let_def)

theorem wait_short_drains_bucket_witness:
  "RateLimitConfig.Enabled (RateLimiter.config per_recipient_limiter)
   \<and> Rate (RateLimiter.config per_recipient_limiter) \<noteq> 0
   \<and> ctx_Done env0 [] = None
   \<and> int (tokens per_recipient_limiter) < tokensNeeded per_recipient_limiter three_recipients
   \<and> Wait env0 per_recipient_limiter three_recipients []
       = (Inr (Some (RateLimitError ''rate limit exceeded'' 600000000 0 0)),
          per_recipient_limiter\<lparr>tokens := 0\<rparr>)"
proof -
  have h1: "RateLimitConfig.Enabled (RateLimiter.config per_recipient_limiter)"
    by (simp add: per_recipient_limiter_def)
  have h2: "Rate (RateLimiter.config per_recipient_limiter) \<noteq> 0"
    by (simp add: per_recipient_limiter_def)
  have h3: "ctx_Done env0 [] = None" by (simp add: env0_def)
  have h4: "int (tokens per_recipient_limiter)
      < tokensNeeded per_recipient_limiter three_recipients"
    by (simp add: per_recipient_limiter_def three_recipients_def letter_def tokensNeeded_def
        TotalRecipients_def)
  have v: "wrap64 (Period (RateLimiter.config per_recipient_limiter)
             sdiv Rate (RateLimiter.config per_recipient_limiter)) = 600000000"
    by (simp add: per_recipient_limiter_def wrap64_def signed_divide_int_def)
  show ?thesis
    using wait_short_drains_bucket [OF h1 h2 h3 h4] h1 h2 h3 h4 v
    by (simp add: NewRateLimitError_def)
qed

text \<open>
  Claim C2 as stated fails: a per-recipient limiter holding 2 tokens, asked for the 3
  recipients of a message, returns the rate-limit error and holds 0 tokens afterwards,
  not 2.
\<close>

theorem wait_partial_consumption_counterexample:
  "RateLimitConfig.Enabled (RateLimiter.config per_recipient_limiter)
   \<and> tokens per_recipient_limiter = 2
   \<and> tokensNeeded per_recipient_limiter three_recipients = 3
   \<and> fst (Wait env0 per_recipient_limiter three_recipients [])
        = Inr (Some (RateLimitError ''rate limit exceeded'' 600000000 0 0))
   \<and> tokens (snd (Wait env0 per_recipient_limiter three_recipients [])) = 0
   \<and> tokens (snd (Wait env0 per_recipient_limiter three_recipients []))
        \<noteq> tokens per_recipient_limiter"
  by (simp add: per_recipient_limiter_def three_recipients_def letter_def tokensNeeded_def
      TotalRecipients_def Wait_def env0_def Wait_loop.simps NewRateLimitError_def wrap64_def
      signed_divide_int_def Let_def)

section \<open>Batch send: validation before any call\<close>

lemma validate_all_Some:
  "\<exists>e \<in> set es. Validate env e \<noteq> None \<Longrightarrow>
   \<exists>i verr. i < length es \<and> Validate env (es ! i) = Some verr
     \<and> (\<forall>j<i. Validate env (es ! j) = None)
     \<and> validate_all env es k
         = Some (wrapError (''email at index '' @ Itoa (int (k + i)) @ '': '') verr)"
proof (induction es arbitrary: k)
  case Nil
  then show ?case by simp
next
  case (Cons e es)
  show ?case
  proof (cases "Validate env e")
    case (Some verr)
    then have "0 < length (e # es) \<and> Validate env ((e # es) ! 0) = Some verr
     \<and> (\<forall>j<0. Validate env ((e # es) ! j) = None)
     \<and> validate_all env (e # es) k
         = Some (wrapError (''email at index '' @ Itoa (int (k + 0)) @ '': '') verr)"
      by simp
    then show ?thesis by blast
  next
    case None
    with Cons.prems have "\<exists>e \<in> set es. Validate env e \<noteq> None" by auto
    from Cons.IH [OF this, of "Suc k"] obtain i verr where
      i: "i < length es" "Validate env (es ! i) = Some verr"
         "\<forall>j<i. Validate env (es ! j) = None"
         "validate_all env es (Suc k)
           = Some (wrapError (''email at index '' @ Itoa (int (Suc k + i)) @ '': '') verr)"
      by blast
    have "\<forall>j<Suc i. Validate env ((e # es) ! j) = None"
      using None i(3) by (auto simp: less_Suc_eq_0_disj)
    with i None have "Suc i < length (e # es) \<and> Validate env ((e # es) ! Suc i) = Some verr
     \<and> (\<forall>j<Suc i. Validate env ((e # es) ! j) = None)
     \<and> validate_all env (e # es) k
         = Some (wrapError (''email at index '' @ Itoa (int (k + Suc i)) @ '': '') verr)"
      by simp
    then show ?thesis by blast
  qed
qed

text \<open>
  Claim C7. On an open client, a batch with an invalid message fails as a whole:
  \<open>SendBatch\<close> returns the validation error of the first invalid message, wrapped
  with that message's index, and client and world are as before the call, whatever the
  providers are: no provider is called, neither for the batch nor for a single message.
\<close>

theorem batch_validation_atomic:
  assumes "\<not> closed c" and "\<exists>e \<in> set emails. Validate env e \<noteq> None"
  shows "\<exists>i verr. i < length emails \<and> Validate env (emails ! i) = Some verr
     \<and> (\<forall>j<i. Validate env (emails ! j) = None)
     \<and> Client_SendBatch env c emails w
         = (Inr (Some (wrapError (''email at index '' @ Itoa (int i) @ '': '') verr)), c, w)"
proof -
  from validate_all_Some [OF assms(2), of 0] obtain i verr where
    i: "i < length emails" "Validate env (emails ! i) = Some verr"
       "\<forall>j<i. Validate env (emails ! j) = None"
       "validate_all env emails 0
         = Some (wrapError (''email at index '' @ Itoa (int (0 + i)) @ '': '') verr)"
    by blast
  from i(1) have ne: "emails \<noteq> []" by auto
  have "Client_SendBatch env c emails w
      = (Inr (Some (wrapError (''email at index '' @ Itoa (int i) @ '': '') verr)), c, w)"
    using assms(1) ne i(4) by (simp add: Client_SendBatch_def)
  with i(1-3) show ?thesis by blast
qed

theorem batch_validation_atomic_witness:
  "\<not> closed plain_client
   \<and> Validate env0 letter = None \<and> Validate env0 spam = None
   \<and> Validate env0 no_recipient \<noteq> None
   \<and> Client_SendBatch env0 plain_client [letter, spam, no_recipient] []
       = (Inr (Some (wrapError ''email at index 2: ''
            (ValidationError ''to'' ''at least one recipient required''))), plain_client, [])"
proof -
  let ?es = "[letter, spam, no_recipient]"
  have h1: "\<not> closed plain_client" by (simp add: plain_client_def)
  have h2: "\<exists>e \<in> set ?es. Validate env0 e \<noteq> None"
    by (simp add: Validate_no_recipient)
  have ex: "\<exists>i verr. i < length ?es \<and> Validate env0 (?es ! i) = Some verr
     \<and> (\<forall>j<i. Validate env0 (?es ! j) = None)
     \<and> Client_SendBatch env0 plain_client ?es []
         = (Inr (Some (wrapError (''email at index '' @ Itoa (int i) @ '': '') verr)),
            plain_client, [])"
    by (rule batch_validation_atomic [OF h1 h2])
  then obtain i verr where
    i1: "i < length ?es" and i2: "Validate env0 (?es ! i) = Some verr" and
    i3: "Client_SendBatch env0 plain_client ?es []
         = (Inr (Some (wrapError (''email at index '' @ Itoa (int i) @ '': '') verr)),
            plain_client, [])"
    by (elim exE conjE)
  have n0: "i \<noteq> 0"
  proof
    assume "i = 0"
    with i2 show False by (simp add: Validate_letter)
  qed
  have n1: "i \<noteq> 1"
  proof
    assume "i = 1"
    with i2 show False by (simp add: Validate_spam)
  qed
  from i1 n0 n1 have e2: "i = 2" by simp
  have v: "verr = ValidationError ''to'' ''at least one recipient required''"
    using i2 unfolding e2 by (simp add: Validate_no_recipient)
  have d: "Itoa (int i) = ''2''" unfolding e2 by (simp add: Itoa_def)
  have "Client_SendBatch env0 plain_client ?es []
       = (Inr (Some (wrapError ''email at index 2: ''
            (ValidationError ''to'' ''at least one recipient required''))), plain_client, [])"
    using i3 unfolding d v by simp
  with h1 Validate_letter Validate_spam Validate_no_recipient show ?thesis by simp
qed

section \<open>Batch send: an invalid message and the degraded path\<close>

lemma batch_invalid_at_1:
  assumes "\<not> closed c" and "Validate env e0 = None" and "Validate env e1 = Some verr"
  shows "Client_SendBatch env c [e0, e1, e2] w
     = (Inr (Some (wrapError ''email at index 1: '' verr)), c, w)"
  using assms by (simp add: Client_SendBatch_def Itoa_1)

lemma batch_degraded_3:
  assumes "\<not> closed c" and "fallback c \<noteq> None"
    and "Validate env e0 = None" and "Validate env e1 = None" and "Validate env e2 = None"
    and "sendBatchWithProvider c [e0, e1, e2] (provider c) w = ((br, Some berr), w0)"
    and "Client_Send env c e0 w0 = (Inr None, c1, w1)"
    and "Client_Send env c1 e1 w1 = (Inr (Some err), c2, w2)"
    and "Client_Send env c2 e2 w2 = (Inr None, c3, w3)"
  shows "Client_SendBatch env c [e0, e1, e2] w
     = (Inr (Some (BatchError ''1/3 emails failed in fallback individual send''
          [(1, err)] 3 1)), c3, w3)"
proof -
  have t: "To e0 \<noteq> []" "To e1 \<noteq> []" "To e2 \<noteq> []"
    using assms(3-5) by (auto dest: Validate_None_To)
  have l: "sendBatchIndividually_loop env [e0, e1, e2] 0 0 0 [] c w0
      = (Inr (2, 1, [(1, err)]), c3, w3)"
    using t assms(7-9) by simp
  have i: "sendBatchIndividually env c [e0, e1, e2] w0
     = (Inr (Some (BatchError ''1/3 emails failed in fallback individual send''
          [(1, err)] 3 1)), c3, w3)"
    unfolding sendBatchIndividually_def l by (simp add: Itoa_1 Itoa_3)
  show ?thesis
    using assms(1-6) i by (simp add: Client_SendBatch_def Let_def)
qed

text \<open>
  Claim C3, as the code has it. On an open client and a batch of three messages: when
  message 1 is invalid (message 0 being valid), \<open>SendBatch\<close> returns the validation error
  of message 1 wrapped as "email at index 1: ", with client and world unchanged, whatever
  the provider and the fallback are; no batch outcome is produced. The degraded path is for
  batches of valid messages: when the provider's batch call fails outright, a fallback is
  configured, and the individual \<open>Send\<close> of message 1 fails while those of messages 0 and 2
  succeed, \<open>SendBatch\<close> returns a \<open>BatchError\<close> with total 3, 1 failed, and the failure
  recorded under index 1.
\<close>

theorem batch_invalid_middle:
  "(\<not> closed c \<and> Validate env e0 = None \<and> Validate env e1 = Some verr
      \<longrightarrow> Client_SendBatch env c [e0, e1, e2] w
           = (Inr (Some (wrapError ''email at index 1: '' verr)), c, w))
   \<and> (\<not> closed c \<and> fallback c \<noteq> None
       \<and> Validate env e0 = None \<and> Validate env e1 = None \<and> Validate env e2 = None
       \<and> sendBatchWithProvider c [e0, e1, e2] (provider c) w = ((br, Some berr), w0)
       \<and> Client_Send env c e0 w0 = (Inr None, c1, w1)
       \<and> Client_Send env c1 e1 w1 = (Inr (Some err), c2, w2)
       \<and> Client_Send env c2 e2 w2 = (Inr None, c3, w3)
      \<longrightarrow> Client_SendBatch env c [e0, e1, e2] w
           = (Inr (Some (BatchError ''1/3 emails failed in fallback individual send''
                [(1, err)] 3 1)), c3, w3))"
proof (intro conjI impI)
  assume "\<not> closed c \<and> Validate env e0 = None \<and> Validate env e1 = Some verr"
  then show "Client_SendBatch env c [e0, e1, e2] w
           = (Inr (Some (wrapError ''email at index 1: '' verr)), c, w)"
    by (intro batch_invalid_at_1) simp_all
next
  assume a: "\<not> closed c \<and> fallback c \<noteq> None
       \<and> Validate env e0 = None \<and> Validate env e1 = None \<and> Validate env e2 = None
       \<and> sendBatchWithProvider c [e0, e1, e2] (provider c) w = ((br, Some berr), w0)
       \<and> Client_Send env c e0 w0 = (Inr None, c1, w1)
       \<and> Client_Send env c1 e1 w1 = (Inr (Some err), c2, w2)
       \<and> Client_Send env c2 e2 w2 = (Inr None, c3, w3)"
  show "Client_SendBatch env c [e0, e1, e2] w
           = (Inr (Some (BatchError ''1/3 emails failed in fallback individual send''
                [(1, err)] 3 1)), c3, w3)"
    by (rule batch_degraded_3 [of c env e0 e1 e2 w br berr w0 c1 w1 err c2 w2 c3 w3])
       (use a in simp_all)
qed

lemma Client_Send_bare:
  assumes "\<not> closed c" and "rateLimiter c = None" and "circuitBreaker c = None"
    and "retryManager c = None" and "To email \<noteq> []" and "Validate env email = None"
  shows "Client_Send env c email w = (Inr (fst (sendFn c email w)), c, snd (sendFn c email w))"
  using assms
  by (simp add: Client_Send_def applyRateLimit_def applyCircuitBreaker_def applyRetry_def
      split: prod.splits)

lemma picky_fields:
  "\<not> closed picky_client" "rateLimiter picky_client = None"
  "circuitBreaker picky_client = None" "retryManager picky_client = None"
  "provider picky_client = ses_down" "fallback picky_client = Some smtp_picky"
  by (simp_all add: picky_client_def plain_client_def)

lemma sendFn_picky_letter:
  "sendFn picky_client letter w = (None, w @ [''ses.Send'', ''smtp.Send''])"
  by (simp add: sendFn_def sendWithProvider_def picky_fields ses_down_def smtp_picky_def
      throttled_def letter_def Let_def)

lemma sendFn_picky_spam:
  "sendFn picky_client spam w = (Some rejected, w @ [''ses.Send'', ''smtp.Send''])"
  by (simp add: sendFn_def sendWithProvider_def picky_fields ses_down_def smtp_picky_def
      throttled_def spam_def letter_def Let_def)

lemma Client_Send_picky_letter:
  "Client_Send env0 picky_client letter w
     = (Inr None, picky_client, w @ [''ses.Send'', ''smtp.Send''])"
  unfolding Client_Send_bare [OF picky_fields(1-4) letter_To Validate_letter]
  by (simp add: sendFn_picky_letter)

lemma Client_Send_picky_spam:
  "Client_Send env0 picky_client spam w
     = (Inr (Some rejected), picky_client, w @ [''ses.Send'', ''smtp.Send''])"
  unfolding Client_Send_bare [OF picky_fields(1-4) spam_To Validate_spam]
  by (simp add: sendFn_picky_spam)

theorem batch_invalid_middle_witness:
  "(\<not> closed plain_client \<and> Validate env0 letter = None
     \<and> Validate env0 no_subject = Some (ValidationError ''subject'' ''subject is required'')
     \<and> Client_SendBatch env0 plain_client [letter, no_subject, letter] []
         = (Inr (Some (wrapError ''email at index 1: ''
              (ValidationError ''subject'' ''subject is required''))), plain_client, []))
   \<and> (\<not> closed picky_client \<and> fallback picky_client \<noteq> None
     \<and> Validate env0 letter = None \<and> Validate env0 spam = None
     \<and> sendBatchWithProvider picky_client [letter, spam, letter] (provider picky_client) []
         = ((None, Some throttled), [''ses.SendBatch''])
     \<and> Client_Send env0 picky_client spam [''ses.SendBatch'', ''ses.Send'', ''smtp.Send'']
         = (Inr (Some rejected), picky_client,
            [''ses.SendBatch'', ''ses.Send'', ''smtp.Send'', ''ses.Send'', ''smtp.Send''])
     \<and> Client_SendBatch env0 picky_client [letter, spam, letter] []
         = (Inr (Some (BatchError ''1/3 emails failed in fallback individual send''
              [(1, rejected)] 3 1)), picky_client,
            [''ses.SendBatch'', ''ses.Send'', ''smtp.Send'', ''ses.Send'', ''smtp.Send'',
             ''ses.Send'', ''smtp.Send'']))"
proof -
  have p: "\<not> closed plain_client" by (simp add: plain_client_def)
  have b: "sendBatchWithProvider picky_client [letter, spam, letter] (provider picky_client) []
         = ((None, Some throttled), [''ses.SendBatch''])"
    by (simp add: sendBatchWithProvider_def picky_fields ses_down_def)
  have s0: "Client_Send env0 picky_client letter [''ses.SendBatch'']
      = (Inr None, picky_client, [''ses.SendBatch'', ''ses.Send'', ''smtp.Send''])"
    by (simp add: Client_Send_picky_letter)
  have s1: "Client_Send env0 picky_client spam [''ses.SendBatch'', ''ses.Send'', ''smtp.Send'']
      = (Inr (Some rejected), picky_client,
         [''ses.SendBatch'', ''ses.Send'', ''smtp.Send'', ''ses.Send'', ''smtp.Send''])"
    by (simp add: Client_Send_picky_spam)
  have s2: "Client_Send env0 picky_client letter
        [''ses.SendBatch'', ''ses.Send'', ''smtp.Send'', ''ses.Send'', ''smtp.Send'']
      = (Inr None, picky_client,
         [''ses.SendBatch'', ''ses.Send'', ''smtp.Send'', ''ses.Send'', ''smtp.Send'',
          ''ses.Send'', ''smtp.Send''])"
    by (simp add: Client_Send_picky_letter)
  have f: "fallback picky_client \<noteq> None" by (simp add: picky_fields)
  have one: "Client_SendBatch env0 plain_client [letter, no_subject, letter] []
         = (Inr (Some (wrapError ''email at index 1: ''
              (ValidationError ''subject'' ''subject is required''))), plain_client, [])"
    using batch_invalid_middle [of plain_client env0 letter no_subject
        "ValidationError ''subject'' ''subject is required''" letter "[]"]
      p Validate_letter Validate_no_subject by simp
  have two: "Client_SendBatch env0 picky_client [letter, spam, letter] []
         = (Inr (Some (BatchError ''1/3 emails failed in fallback individual send''
              [(1, rejected)] 3 1)), picky_client,
            [''ses.SendBatch'', ''ses.Send'', ''smtp.Send'', ''ses.Send'', ''smtp.Send'',
             ''ses.Send'', ''smtp.Send''])"
    using batch_invalid_middle [of picky_client env0 letter spam _ letter "[]" None throttled
        "[''ses.SendBatch'']" picky_client "[''ses.SendBatch'', ''ses.Send'', ''smtp.Send'']"
        rejected picky_client
        "[''ses.SendBatch'', ''ses.Send'', ''smtp.Send'', ''ses.Send'', ''smtp.Send'']"
        picky_client]
      picky_fields(1) f Validate_letter Validate_spam b s0 s1 s2 by simp
  show ?thesis
    using p picky_fields(1) f Validate_letter Validate_spam Validate_no_subject b s1 one two
    by simp
qed

text \<open>
  Claim C3 as stated fails: with a primary provider whose batch call fails outright, a
  fallback that accepts every message, and the batch of a valid message, a message without
  subject and a valid message, \<open>SendBatch\<close> returns the wrapped validation error of
  index 1 and the log of calls stays empty: there is no \<open>BatchError\<close> with total 3, and
  messages 0 and 2 are not sent.
\<close>

theorem batch_invalid_middle_counterexample:
  "\<not> closed plain_client \<and> fallback plain_client = Some smtp_up
   \<and> fst (SendBatch (provider plain_client) [letter, no_subject, letter] []) = (None, Some throttled)
   \<and> Validate env0 letter = None
   \<and> Validate env0 no_subject = Some (ValidationError ''subject'' ''subject is required'')
   \<and> Client_SendBatch env0 plain_client [letter, no_subject, letter] []
       = (Inr (Some (wrapError ''email at index 1: ''
            (ValidationError ''subject'' ''subject is required''))), plain_client, [])"
proof -
  have a: "\<not> closed plain_client" "fallback plain_client = Some smtp_up"
    "fst (SendBatch (provider plain_client) [letter, no_subject, letter] [])
       = (None, Some throttled)"
    by (simp_all add: plain_client_def ses_down_def)
  have "Client_SendBatch env0 plain_client [letter, no_subject, letter] []
       = (Inr (Some (wrapError ''email at index 1: ''
            (ValidationError ''subject'' ''subject is required''))), plain_client, [])"
    using a(1) by (simp add: Client_SendBatch_def Validate_letter Validate_no_subject Itoa_1)
  with a Validate_letter Validate_no_subject show ?thesis by simp
qed

section \<open>Send: the breaker guards the first invocation only\<close>

lemma sendFn_fields:
  "provider c' = provider c \<Longrightarrow> fallback c' = fallback c \<Longrightarrow> sendFn c' email = sendFn c email"
  by (rule ext) (auto simp: sendFn_def sendWithProvider_def Let_def split: option.splits)

lemma Client_Send_steps:
  assumes "\<not> closed c" and "To email \<noteq> []" and "Validate env email = None"
    and "applyRateLimit env c email w = (Inr None, c1)"
    and "applyCircuitBreaker env c1 email w = (err, c2, w1)"
  shows "Client_Send env c email w
     = (Inr (fst (applyRetry env c2 email err w1)), c2, snd (applyRetry env c2 email err w1))"
  using assms by (simp add: Client_Send_def split: prod.splits)

text \<open>
  Claim C1, as the code has it. In a \<open>Send\<close> that reaches the breaker (open client,
  valid message, rate limit passed) with a breaker and a retry controller configured, the
  unit of work goes through \<open>Execute\<close> once. When that first result is a retryable
  failure, \<open>Retry\<close> is handed the bare unit of work \<open>sendFn\<close> (primary provider, then
  fallback substitution): the retry attempts neither consult nor update the breaker, and
  the breaker after the call is the one the first \<open>Execute\<close> left.
\<close>

theorem retry_bypasses_breaker:
  assumes "\<not> closed c" and "To email \<noteq> []" and "Validate env email = None"
    and "applyRateLimit env c email w = (Inr None, c1)"
    and "circuitBreaker c1 = Some cb" and "retryManager c1 = Some rm"
    and "Execute cb (clock env) (sendFn c1 email) w = (err, cb', w1)"
  shows "Client_Send env c email w =
     (if err \<noteq> None \<and> IsRetryable err then
        (Inr (fst (Retry rm (calculateDelay env) (sleep env) (sendFn c1 email) w1)),
         c1\<lparr>circuitBreaker := Some cb'\<rparr>,
         snd (Retry rm (calculateDelay env) (sleep env) (sendFn c1 email) w1))
      else (Inr err, c1\<lparr>circuitBreaker := Some cb'\<rparr>, w1))"
proof -
  let ?c2 = "c1\<lparr>circuitBreaker := Some cb'\<rparr>"
  have b: "applyCircuitBreaker env c1 email w = (err, ?c2, w1)"
    using assms(5,7) by (simp add: applyCircuitBreaker_def)
  have f: "sendFn ?c2 email = sendFn c1 email"
    by (rule sendFn_fields) simp_all
  have r: "applyRetry env ?c2 email err w1 =
     (if err \<noteq> None \<and> IsRetryable err
      then Retry rm (calculateDelay env) (sleep env) (sendFn c1 email) w1 else (err, w1))"
    using assms(6) f by (simp add: applyRetry_def)
  show ?thesis
    unfolding Client_Send_steps [OF assms(1-4) b] r by simp
qed

lemma guarded_fields:
  "\<not> closed guarded_client" "rateLimiter guarded_client = None"
  "circuitBreaker guarded_client = Some (NewCircuitBreaker cfg1)"
  "retryManager guarded_client = Some two_attempts"
  "provider guarded_client = ses_down" "fallback guarded_client = None"
  by (simp_all add: guarded_client_def)

lemma open_fields:
  "\<not> closed open_client" "rateLimiter open_client = None"
  "circuitBreaker open_client = Some tripped"
  "retryManager open_client = Some two_attempts"
  "provider open_client = ses_down" "fallback open_client = None"
  by (simp_all add: open_client_def guarded_client_def)

lemma sendFn_guarded: "sendFn guarded_client letter w = (Some throttled, w @ [''ses.Send''])"
  by (simp add: sendFn_def sendWithProvider_def guarded_fields ses_down_def)

lemma Execute_guarded:
  "Execute (NewCircuitBreaker cfg1) (clock env0) (sendFn guarded_client letter) []
     = (Some throttled, tripped, [''ses.Send''])"
  by (simp add: Execute_def canExecute_def recordResult_def NewCircuitBreaker_def cfg1_def
      sendFn_guarded tripped_def env0_def wrap64_def Let_def)

lemma Execute_tripped:
  "Execute tripped (clock env0) fn w = (Some ErrCircuitBreakerOpen, tripped, w)"
  by (intro Execute_Open_rejects)
     (simp_all add: tripped_def cfg1_def env0_def time_Since_def maxDuration_def minDuration_def)

lemma Retry_guarded:
  "Retry two_attempts (calculateDelay env0) (sleep env0) (sendFn guarded_client letter)
      [''ses.Send'']
     = (Some throttled, [''ses.Send'', ''ses.Send'', ''sleep'', ''ses.Send''])"
  by (simp add: Retry_def two_attempts_def retry_loop.simps sendFn_guarded throttled_def
      env0_def Let_def)

theorem retry_bypasses_breaker_witness:
  "\<not> closed guarded_client \<and> To letter \<noteq> [] \<and> Validate env0 letter = None
   \<and> applyRateLimit env0 guarded_client letter [] = (Inr None, guarded_client)
   \<and> circuitBreaker guarded_client = Some (NewCircuitBreaker cfg1)
   \<and> retryManager guarded_client = Some two_attempts
   \<and> Execute (NewCircuitBreaker cfg1) (clock env0) (sendFn guarded_client letter) []
       = (Some throttled, tripped, [''ses.Send''])
   \<and> Client_Send env0 guarded_client letter []
       = (Inr (Some throttled), guarded_client\<lparr>circuitBreaker := Some tripped\<rparr>,
          [''ses.Send'', ''ses.Send'', ''sleep'', ''ses.Send''])"
proof -
  have h4: "applyRateLimit env0 guarded_client letter [] = (Inr None, guarded_client)"
    by (simp add: applyRateLimit_def guarded_fields)
  show ?thesis
    using retry_bypasses_breaker [OF guarded_fields(1) letter_To Validate_letter h4
        guarded_fields(3) guarded_fields(4) Execute_guarded]
      guarded_fields letter_To Validate_letter h4 Execute_guarded
    by (simp add: Retry_guarded throttled_def)
qed

lemma Client_Send_guarded:
  "Client_Send env0 guarded_client letter []
     = (Inr (Some throttled), guarded_client\<lparr>circuitBreaker := Some tripped\<rparr>,
        [''ses.Send'', ''ses.Send'', ''sleep'', ''ses.Send''])"
proof -
  have h4: "applyRateLimit env0 guarded_client letter [] = (Inr None, guarded_client)"
    by (simp add: applyRateLimit_def guarded_fields)
  have b: "applyCircuitBreaker env0 guarded_client letter []
      = (Some throttled, guarded_client\<lparr>circuitBreaker := Some tripped\<rparr>, [''ses.Send''])"
    by (simp add: applyCircuitBreaker_def guarded_fields Execute_guarded)
  have f: "sendFn (guarded_client\<lparr>circuitBreaker := Some tripped\<rparr>) letter
      = sendFn guarded_client letter"
    by (rule sendFn_fields) simp_all
  have r: "applyRetry env0 (guarded_client\<lparr>circuitBreaker := Some tripped\<rparr>) letter
        (Some throttled) [''ses.Send'']
      = (Some throttled, [''ses.Send'', ''ses.Send'', ''sleep'', ''ses.Send''])"
    by (simp add: applyRetry_def guarded_fields f Retry_guarded throttled_def)
  show ?thesis
    unfolding Client_Send_steps [OF guarded_fields(1) letter_To Validate_letter h4 b] r
    by simp
qed

lemma Client_Send_spec_guarded:
  "Client_Send_spec env0 guarded_client letter []
     = (Inr (Some ErrCircuitBreakerOpen), guarded_client\<lparr>circuitBreaker := Some tripped\<rparr>,
        [''ses.Send''])"
proof -
  let ?c2 = "guarded_client\<lparr>circuitBreaker := Some tripped\<rparr>"
  have h4: "applyRateLimit env0 guarded_client letter [] = (Inr None, guarded_client)"
    by (simp add: applyRateLimit_def guarded_fields)
  have b: "applyCircuitBreaker env0 guarded_client letter []
      = (Some throttled, ?c2, [''ses.Send''])"
    by (simp add: applyCircuitBreaker_def guarded_fields Execute_guarded)
  have g: "guardedFn env0 ?c2 letter (tripped, [''ses.Send''])
      = (Some ErrCircuitBreakerOpen, (tripped, [''ses.Send'']))"
    by (simp add: guardedFn_def Execute_tripped)
  have n: "\<not> IsRetryable (Some ErrCircuitBreakerOpen)"
    by (simp add: ErrCircuitBreakerOpen_def)
  have rt: "Retry two_attempts (calculateDelay env0)
        (\<lambda>d (cb, w). case sleep env0 d w of (ce, w') \<Rightarrow> (ce, (cb, w')))
        (guardedFn env0 ?c2 letter) (tripped, [''ses.Send''])
      = (Some ErrCircuitBreakerOpen, (tripped, [''ses.Send'']))"
    using g n by (simp add: Retry_def two_attempts_def retry_loop.simps [of _ _ _ _ 1] Let_def)
  have r: "applyRetry_spec env0 ?c2 letter (Some throttled) [''ses.Send'']
      = (Some ErrCircuitBreakerOpen, ?c2, [''ses.Send''])"
    unfolding applyRetry_spec_def using rt by (simp add: guarded_fields throttled_def)
  show ?thesis
    using guarded_fields(1) letter_To Validate_letter h4 b r
    by (simp add: Client_Send_spec_def)
qed

text \<open>
  Claim C1 as stated fails. The breaker has threshold 1, the provider always fails with a
  retryable error, there is no fallback, and the retry controller has two attempts. The
  first invocation opens the breaker. The code then calls the provider twice more while the
  breaker is Open, and the breaker still counts one failure; were each retry attempt run
  through \<open>Execute\<close>, as \<open>Client_Send_spec\<close> does, the first retry attempt would be
  rejected with the circuit-open failure and the provider called once in all.
\<close>

theorem retry_through_breaker_counterexample:
  "circuitBreaker guarded_client = Some (NewCircuitBreaker cfg1)
   \<and> retryManager guarded_client = Some two_attempts
   \<and> Client_Send env0 guarded_client letter []
       = (Inr (Some throttled), guarded_client\<lparr>circuitBreaker := Some tripped\<rparr>,
          [''ses.Send'', ''ses.Send'', ''sleep'', ''ses.Send''])
   \<and> Client_Send_spec env0 guarded_client letter []
       = (Inr (Some ErrCircuitBreakerOpen), guarded_client\<lparr>circuitBreaker := Some tripped\<rparr>,
          [''ses.Send''])
   \<and> Client_Send env0 guarded_client letter [] \<noteq> Client_Send_spec env0 guarded_client letter []"
  unfolding Client_Send_guarded Client_Send_spec_guarded
  by (simp add: guarded_fields)

section \<open>Failures that are not retryable are not retried\<close>

text \<open>
  Claim C9. \<open>IsRetryable\<close> is false for a nil error, for every \<open>RateLimitError\<close> and for
  \<open>ErrCircuitBreakerOpen\<close>. So when the guarded unit of work of a \<open>Send\<close> ends with one
  of these two failures, the retry step returns it as it is, and \<open>Send\<close> returns that
  failure with the client and the world the guarded unit of work left: the retry
  controller is not run.
\<close>

theorem not_retryable_not_retried:
  "\<not> IsRetryable None \<and> \<not> IsRetryable (Some (RateLimitError m d lim win))
   \<and> \<not> IsRetryable (Some ErrCircuitBreakerOpen)
   \<and> (\<forall>err. err = Some (RateLimitError m d lim win) \<or> err = Some ErrCircuitBreakerOpen \<longrightarrow>
         applyRetry env c2 email err w1 = (err, w1)
         \<and> (\<not> closed c \<and> To email \<noteq> [] \<and> Validate env email = None
              \<and> applyRateLimit env c email w = (Inr None, c1)
              \<and> applyCircuitBreaker env c1 email w = (err, c2, w1)
             \<longrightarrow> Client_Send env c email w = (Inr err, c2, w1)))"
  by (auto simp: ErrCircuitBreakerOpen_def applyRetry_def Client_Send_def split: option.splits)

theorem not_retryable_not_retried_witness:
  "\<not> closed open_client \<and> To letter \<noteq> [] \<and> Validate env0 letter = None
   \<and> retryManager open_client = Some two_attempts
   \<and> applyRateLimit env0 open_client letter [] = (Inr None, open_client)
   \<and> applyCircuitBreaker env0 open_client letter []
       = (Some ErrCircuitBreakerOpen, open_client\<lparr>circuitBreaker := Some tripped\<rparr>, [])
   \<and> Client_Send env0 open_client letter []
       = (Inr (Some ErrCircuitBreakerOpen), open_client\<lparr>circuitBreaker := Some tripped\<rparr>, [])"
proof -
  have h4: "applyRateLimit env0 open_client letter [] = (Inr None, open_client)"
    by (simp add: applyRateLimit_def open_fields)
  have h5: "applyCircuitBreaker env0 open_client letter []
       = (Some ErrCircuitBreakerOpen, open_client\<lparr>circuitBreaker := Some tripped\<rparr>, [])"
    by (simp add: applyCircuitBreaker_def open_fields Execute_tripped)
  show ?thesis
    using not_retryable_not_retried [of "''rate limit exceeded''" 600000000 0 0 env0
        "open_client\<lparr>circuitBreaker := Some tripped\<rparr>" letter "[]" open_client "[]" open_client]
      open_fields letter_To Validate_letter h4 h5
    by simp
qed

end
